theory Spec2Isabelle
  imports Complex_Main "HOL-Library.Sublist"
begin

section \<open>Python values, exceptions and results\<close>

text \<open>
  A raised Python exception is a value: its class name and the message that
  \<^verbatim>\<open>str(e)\<close> renders. \<open>Exn\<close> is an instance of \<^verbatim>\<open>Exception\<close>; \<open>BaseExn\<close> is
  an exception outside that class (\<^verbatim>\<open>KeyboardInterrupt\<close>, \<^verbatim>\<open>SystemExit\<close>,
  \<^verbatim>\<open>GeneratorExit\<close>), which a clause \<^verbatim>\<open>except Exception\<close> does not catch.
  A computation that may raise returns \<open>exn + 'a\<close>, with \<open>Inl\<close> for the
  exception. Python floats are modelled as reals: rounding, infinities and NaN
  are outside the model.
\<close>

datatype exn =
    Exn (exn_class: string) (exn_msg: string)
  | BaseExn (exn_class: string) (exn_msg: string)

text \<open>What \<^verbatim>\<open>except Exception\<close> catches.\<close>

fun is_Exception :: "exn \<Rightarrow> bool" where
  "is_Exception (Exn c m) = True"
| "is_Exception (BaseExn c m) = False"

section \<open>The airport dataset and the nearest-airport query\<close>

text \<open>
  An airport is the dictionary built by the main block: \<^verbatim>\<open>name\<close>,
  \<^verbatim>\<open>iata_code\<close> and \<^verbatim>\<open>location\<close>, a pair (latitude, longitude).
\<close>

record airport =
  name :: string
  iata_code :: string
  location :: "real \<times> real"

text \<open>
  \<^verbatim>\<open>geodesic(p, q).km\<close> belongs to the geopy library, which is no part of the
  repository: it is a parameter \<open>geodesic_km\<close> of the model, a function of the two
  points that yields a distance in kilometres or raises.
\<close>

type_synonym distance_fn = "real \<times> real \<Rightarrow> real \<times> real \<Rightarrow> exn + real"

text \<open>
  The \<^verbatim>\<open>for airport in airports\<close> loop of \<^verbatim>\<open>find_nearest_airports\<close>: every
  airport is paired with its distance and appended to \<^verbatim>\<open>airport_distances\<close>;
  an exception of the distance computation leaves the loop and the function.
\<close>

fun airport_distances_loop ::
  "distance_fn \<Rightarrow> real \<times> real \<Rightarrow> airport list \<Rightarrow> (airport \<times> real) list
     \<Rightarrow> exn + (airport \<times> real) list" where
  "airport_distances_loop geodesic_km user [] airport_distances = Inr airport_distances"
| "airport_distances_loop geodesic_km user (a # rest) airport_distances =
     (let airport_location = (fst (location a), snd (location a)) in
      case geodesic_km user airport_location of
        Inl e \<Rightarrow> Inl e
      | Inr distance \<Rightarrow>
          airport_distances_loop geodesic_km user rest (airport_distances @ [(a, distance)]))"

text \<open>
  The slice \<^verbatim>\<open>xs[:k]\<close> for a Python integer \<open>k\<close>: the first \<open>k\<close> elements when
  \<open>k\<close> is not negative, all but the last \<open>-k\<close> elements otherwise.
\<close>

definition slice_to :: "'a list \<Rightarrow> int \<Rightarrow> 'a list" where
  "slice_to xs k =
     (if 0 \<le> k then take (nat k) xs else take (nat (int (length xs) + k)) xs)"

text \<open>
  \<^verbatim>\<open>airport_distances.sort(key=lambda x: x[1])\<close> is a stable sort on the
  distance; \<^const>\<open>sort_key\<close> is the stable sort of the HOL library. A stable
  sort on a key has one result only, so the two agree on every input.
\<close>

definition find_nearest_airports ::
  "distance_fn \<Rightarrow> real \<Rightarrow> real \<Rightarrow> airport list \<Rightarrow> int
     \<Rightarrow> exn + (airport \<times> real) list" where
  "find_nearest_airports geodesic_km user_lat user_lon airports num_airports =
     (case airport_distances_loop geodesic_km (user_lat, user_lon) airports [] of
        Inl e \<Rightarrow> Inl e
      | Inr airport_distances \<Rightarrow>
          Inr (slice_to (sort_key snd airport_distances) num_airports))"

section \<open>JSON bodies as Python values\<close>

text \<open>
  What \<^verbatim>\<open>response.json()\<close> can return, and what the vehicle's attributes and
  the location hold: \<^verbatim>\<open>None\<close>, booleans, integers, floats, strings, lists
  and dictionaries (association lists with one entry for each key;
  \<^const>\<open>map_of\<close> looks a key up).
\<close>

datatype pyval =
    PNone
  | PBool bool
  | PInt int
  | PFloat real
  | PStr string
  | PList "pyval list"
  | PDict "(string \<times> pyval) list"

text \<open>Python's truth value of an object, as \<^verbatim>\<open>if x:\<close> and \<^verbatim>\<open>and\<close> test it.\<close>

fun truthy :: "pyval \<Rightarrow> bool" where
  "truthy PNone = False"
| "truthy (PBool b) = b"
| "truthy (PInt i) = (i \<noteq> 0)"
| "truthy (PFloat r) = (r \<noteq> 0)"
| "truthy (PStr s) = (s \<noteq> [])"
| "truthy (PList xs) = (xs \<noteq> [])"
| "truthy (PDict kvs) = (kvs \<noteq> [])"

fun type_name :: "pyval \<Rightarrow> string" where
  "type_name PNone = ''NoneType''"
| "type_name (PBool b) = ''bool''"
| "type_name (PInt i) = ''int''"
| "type_name (PFloat r) = ''float''"
| "type_name (PStr s) = ''str''"
| "type_name (PList xs) = ''list''"
| "type_name (PDict kvs) = ''dict''"

definition apostrophe :: string where
  "apostrophe = [CHR 0x27]"

definition newline :: string where
  "newline = [CHR 0x0A]"

text \<open>
  \<^verbatim>\<open>v.get(key, default)\<close>: only a dictionary has the method; on any other
  value the attribute lookup raises \<^verbatim>\<open>AttributeError\<close>.
\<close>

definition py_get :: "pyval \<Rightarrow> string \<Rightarrow> pyval \<Rightarrow> exn + pyval" where
  "py_get v key dflt =
     (case v of
        PDict kvs \<Rightarrow> Inr (case map_of kvs key of Some x \<Rightarrow> x | None \<Rightarrow> dflt)
      | _ \<Rightarrow> Inl (Exn ''AttributeError''
                 (apostrophe @ type_name v @ apostrophe @ '' object has no attribute ''
                    @ apostrophe @ ''get'' @ apostrophe)))"

text \<open>
  \<^verbatim>\<open>isinstance(x, (int, float))\<close>. In Python \<^verbatim>\<open>bool\<close> is a subclass of
  \<^verbatim>\<open>int\<close>, so a boolean passes the test and counts as 0 or 1.
\<close>

fun isinstance_int_float :: "pyval \<Rightarrow> bool" where
  "isinstance_int_float (PBool b) = True"
| "isinstance_int_float (PInt i) = True"
| "isinstance_int_float (PFloat r) = True"
| "isinstance_int_float v = False"

text \<open>
  Python's true division of two integers yields the float nearest to the
  quotient and raises \<^verbatim>\<open>OverflowError\<close> when that float would lie beyond the
  largest one, \<open>2 ^ 1024 - 2 ^ 971\<close>: that is, when the quotient's absolute
  value reaches the midpoint \<open>2 ^ 1024 - 2 ^ 970\<close>.
\<close>

definition float_overflow_bound :: real where
  "float_overflow_bound = 2 ^ 1024 - 2 ^ 970"

definition int_true_div :: "int \<Rightarrow> int \<Rightarrow> exn + real" where
  "int_true_div a b =
     (if b = 0 then Inl (Exn ''ZeroDivisionError'' ''division by zero'')
      else if float_overflow_bound \<le> \<bar>of_int a / of_int b\<bar>
      then Inl (Exn ''OverflowError'' ''integer division result too large for a float'')
      else Inr (of_int a / of_int b))"

text \<open>
  \<^verbatim>\<open>(celsius * 9/5) + 32 if isinstance(celsius, (int, float)) else "N/A"\<close>.
  For an integer (a boolean is the integer 0 or 1) the product \<^verbatim>\<open>celsius * 9\<close>
  is an exact integer and \<^verbatim>\<open>/ 5\<close> is the true division, which raises on
  overflow; for a float both operations are float operations, which do not
  raise.
\<close>

fun fahrenheit_of :: "pyval \<Rightarrow> exn + pyval" where
  "fahrenheit_of (PBool b) =
     (case int_true_div (of_bool b * 9) 5 of
        Inl e \<Rightarrow> Inl e | Inr q \<Rightarrow> Inr (PFloat (q + 32)))"
| "fahrenheit_of (PInt i) =
     (case int_true_div (i * 9) 5 of
        Inl e \<Rightarrow> Inl e | Inr q \<Rightarrow> Inr (PFloat (q + 32)))"
| "fahrenheit_of (PFloat r) = Inr (PFloat ((r * 9 / 5) + 32))"
| "fahrenheit_of v = Inr (PStr ''N/A'')"

text \<open>
  \<^verbatim>\<open>str(v)\<close>, as an f-string field renders a value: a string is itself; the
  text of every other value (numbers, \<^verbatim>\<open>None\<close>, containers) is Python's own
  and enters as the parameter \<open>render\<close>.
\<close>

definition py_str :: "(pyval \<Rightarrow> string) \<Rightarrow> pyval \<Rightarrow> string" where
  "py_str render v = (case v of PStr s \<Rightarrow> s | _ \<Rightarrow> render v)"

section \<open>The collaborators and the display\<close>

text \<open>
  The answer of \<^verbatim>\<open>requests.get\<close>: a status code and the outcome of
  \<^verbatim>\<open>response.json()\<close>, which raises on a body that is not JSON.
\<close>

record response =
  status_code :: int
  json_body :: "exn + pyval"

text \<open>
  The DroneKit vehicle: each attribute chain read by
  \<^verbatim>\<open>get_telemetry_data\<close> yields a value or raises.
\<close>

record vehicle =
  global_frame_lat :: "exn + pyval"
  global_frame_lon :: "exn + pyval"
  global_frame_alt :: "exn + pyval"
  groundspeed :: "exn + pyval"
  battery_level :: "exn + pyval"
  mode_name :: "exn + pyval"

record telemetry =
  latitude :: pyval
  longitude :: pyval
  altitude :: pyval
  ground_speed :: pyval
  battery :: pyval
  mode :: pyval

text \<open>
  What lies outside the source during one refresh: the distance function, the
  rendering of values by f-strings (\<^verbatim>\<open>{x}\<close> and \<^verbatim>\<open>{x:.2f}\<close>), the answer
  of \<^verbatim>\<open>requests.get\<close> for the weather URL of a latitude and longitude, and the
  vehicle.
\<close>

record env =
  env_geodesic :: distance_fn
  env_str :: "pyval \<Rightarrow> string"
  env_format_2f :: "real \<Rightarrow> string"
  env_requests_get :: "real \<Rightarrow> real \<Rightarrow> exn + response"
  env_vehicle :: vehicle

text \<open>
  The state the program writes: the three \<^verbatim>\<open>StringVar\<close>s of the HUD, the
  delays handed to \<^verbatim>\<open>root.after(_, update)\<close>, and the lines printed.
\<close>

record world =
  telemetry_label :: string
  weather_label :: string
  airport_label :: string
  after_calls :: "nat list"
  console :: "string list"

section \<open>The HUD's update functions\<close>

text \<open>
  \<^verbatim>\<open>HUD.get_telemetry_data\<close>: the dictionary literal reads the attributes in
  order; the first one that raises ends the function.
\<close>

definition get_telemetry_data :: "vehicle \<Rightarrow> exn + telemetry" where
  "get_telemetry_data v =
     (case global_frame_lat v of Inl e \<Rightarrow> Inl e | Inr la \<Rightarrow>
     (case global_frame_lon v of Inl e \<Rightarrow> Inl e | Inr lo \<Rightarrow>
     (case global_frame_alt v of Inl e \<Rightarrow> Inl e | Inr al \<Rightarrow>
     (case groundspeed v of Inl e \<Rightarrow> Inl e | Inr gs \<Rightarrow>
     (case battery_level v of Inl e \<Rightarrow> Inl e | Inr ba \<Rightarrow>
     (case mode_name v of Inl e \<Rightarrow> Inl e | Inr mo \<Rightarrow>
        Inr \<lparr>latitude = la, longitude = lo, altitude = al, ground_speed = gs,
             battery = ba, mode = mo\<rparr>))))))"

definition telemetry_text :: "(pyval \<Rightarrow> string) \<Rightarrow> telemetry \<Rightarrow> string" where
  "telemetry_text render t =
     ''Latitude: '' @ py_str render (latitude t) @ newline
     @ ''Longitude: '' @ py_str render (longitude t) @ newline
     @ ''Altitude: '' @ py_str render (altitude t) @ '' meters'' @ newline
     @ ''Ground Speed: '' @ py_str render (ground_speed t) @ '' m/s'' @ newline
     @ ''Battery: '' @ py_str render (battery t) @ ''%'' @ newline
     @ ''Mode: '' @ py_str render (mode t)"

text \<open>
  \<^verbatim>\<open>HUD.update_telemetry\<close>: the clause \<^verbatim>\<open>except Exception as e\<close> catches
  the instances of \<^verbatim>\<open>Exception\<close> and shows their message; any other exception
  leaves the function with no label written.
\<close>

definition update_telemetry :: "env \<Rightarrow> world \<Rightarrow> (exn + unit) \<times> world" where
  "update_telemetry en w =
     (case get_telemetry_data (env_vehicle en) of
        Inr telemetry_data \<Rightarrow>
          (Inr (), w\<lparr>telemetry_label := telemetry_text (env_str en) telemetry_data\<rparr>)
      | Inl e \<Rightarrow>
          if is_Exception e
          then (Inr (), w\<lparr>telemetry_label := ''Error fetching telemetry: '' @ exn_msg e\<rparr>)
          else (Inl e, w))"

text \<open>
  \<^verbatim>\<open>get_weather_data\<close>: no \<^verbatim>\<open>try\<close> surrounds \<^verbatim>\<open>requests.get\<close> or
  \<^verbatim>\<open>response.json()\<close>, so their exceptions leave the function; a status other
  than 200 prints a line and returns \<^verbatim>\<open>None\<close>.
\<close>

definition get_weather_data ::
  "env \<Rightarrow> real \<Rightarrow> real \<Rightarrow> world \<Rightarrow> (exn + pyval) \<times> world" where
  "get_weather_data en lat lon w =
     (case env_requests_get en lat lon of
        Inl e \<Rightarrow> (Inl e, w)
      | Inr resp \<Rightarrow>
          if status_code resp = 200 then (json_body resp, w)
          else (Inr PNone,
                w\<lparr>console := console w @
                     [''Failed to retrieve weather data: ''
                        @ py_str (env_str en) (PInt (status_code resp))]\<rparr>))"

definition weather_text :: "(pyval \<Rightarrow> string) \<Rightarrow> pyval \<Rightarrow> pyval \<Rightarrow> pyval \<Rightarrow> string" where
  "weather_text render celsius fahrenheit wind_speed =
     ''Current Temperature: '' @ py_str render celsius @ '' C / ''
       @ py_str render fahrenheit @ '' F'' @ newline
     @ ''Current Wind Speed: '' @ py_str render wind_speed @ '' m/s''"

text \<open>
  \<^verbatim>\<open>HUD.update_weather\<close>. The result is the exception that leaves the
  function, if any, and the state it leaves behind.
\<close>

definition update_weather ::
  "env \<Rightarrow> real \<Rightarrow> real \<Rightarrow> world \<Rightarrow> (exn + unit) \<times> world" where
  "update_weather en lat lon w =
     (case get_weather_data en lat lon w of
        (Inl e, w1) \<Rightarrow> (Inl e, w1)
      | (Inr weather_data, w1) \<Rightarrow>
          if truthy weather_data then
            (case py_get weather_data ''current_weather'' (PDict []) of
               Inl e \<Rightarrow> (Inl e, w1)
             | Inr current_weather \<Rightarrow>
            (case py_get current_weather ''temperature'' (PStr ''N/A'') of
               Inl e \<Rightarrow> (Inl e, w1)
             | Inr celsius \<Rightarrow>
            (case fahrenheit_of celsius of
               Inl e \<Rightarrow> (Inl e, w1)
             | Inr fahrenheit \<Rightarrow>
            (case py_get current_weather ''windspeed'' (PStr ''N/A'') of
               Inl e \<Rightarrow> (Inl e, w1)
             | Inr wind_speed \<Rightarrow>
                 (Inr (),
                  w1\<lparr>weather_label :=
                        weather_text (env_str en) celsius fahrenheit wind_speed\<rparr>)))))
          else (Inr (), w1\<lparr>weather_label := ''Failed to retrieve weather data.''\<rparr>))"

text \<open>
  \<^verbatim>\<open>HUD.update_airports\<close>: the query with the default \<^verbatim>\<open>num_airports=5\<close>,
  then one line of text for each entry.
\<close>

definition airport_line :: "(real \<Rightarrow> string) \<Rightarrow> airport \<times> real \<Rightarrow> string" where
  "airport_line format_2f entry =
     name (fst entry) @ '' ('' @ iata_code (fst entry) @ '') - ''
       @ format_2f (snd entry) @ '' km'' @ newline"

definition airports_text :: "(real \<Rightarrow> string) \<Rightarrow> (airport \<times> real) list \<Rightarrow> string" where
  "airports_text format_2f nearest_airports =
     foldl (\<lambda>airport_text entry. airport_text @ airport_line format_2f entry)
       (''Nearest Airports:'' @ newline) nearest_airports"

definition update_airports ::
  "env \<Rightarrow> real \<Rightarrow> real \<Rightarrow> airport list \<Rightarrow> world \<Rightarrow> (exn + unit) \<times> world" where
  "update_airports en user_lat user_lon airports w =
     (case find_nearest_airports (env_geodesic en) user_lat user_lon airports 5 of
        Inl e \<Rightarrow> (Inl e, w)
      | Inr nearest_airports \<Rightarrow>
          (Inr (), w\<lparr>airport_label := airports_text (env_format_2f en) nearest_airports\<rparr>))"

section \<open>One refresh cycle\<close>

text \<open>
  The \<^verbatim>\<open>update\<close> closure of the main block: telemetry, weather, airports,
  and as its last statement \<^verbatim>\<open>root.after(5000, update)\<close>. An exception that
  leaves a step leaves \<^verbatim>\<open>update\<close> too, before the later statements run.
\<close>

definition update ::
  "env \<Rightarrow> real \<Rightarrow> real \<Rightarrow> airport list \<Rightarrow> world \<Rightarrow> (exn + unit) \<times> world" where
  "update en user_lat user_lon airports w =
     (case update_telemetry en w of
        (Inl e, w1) \<Rightarrow> (Inl e, w1)
      | (Inr u, w1) \<Rightarrow>
     (case update_weather en user_lat user_lon w1 of
        (Inl e, w2) \<Rightarrow> (Inl e, w2)
      | (Inr u', w2) \<Rightarrow>
     (case update_airports en user_lat user_lon airports w2 of
        (Inl e, w3) \<Rightarrow> (Inl e, w3)
      | (Inr u'', w3) \<Rightarrow> (Inr (), w3\<lparr>after_calls := after_calls w3 @ [5000]\<rparr>))))"

section \<open>Start-up: the user's location\<close>

text \<open>
  \<^verbatim>\<open>get_user_location\<close>: the body of the \<^verbatim>\<open>try\<close> (request, JSON, split,
  two \<^verbatim>\<open>float\<close> conversions) either yields two floats or raises; its outcome is
  the parameter \<open>ipinfo\<close>. On an instance of \<^verbatim>\<open>Exception\<close> the function prints
  and returns \<^verbatim>\<open>(None, None)\<close>; any other exception leaves it.
\<close>

definition get_user_location ::
  "exn + real \<times> real \<Rightarrow> world \<Rightarrow> (exn + pyval \<times> pyval) \<times> world" where
  "get_user_location ipinfo w =
     (case ipinfo of
        Inr loc \<Rightarrow> (Inr (PFloat (fst loc), PFloat (snd loc)), w)
      | Inl e \<Rightarrow>
          if is_Exception e
          then (Inr (PNone, PNone),
                w\<lparr>console := console w @ [''Failed to retrieve location: '' @ exn_msg e]\<rparr>)
          else (Inl e, w))"

text \<open>
  The main block from the call of \<^verbatim>\<open>get_user_location\<close> to the
  \<^verbatim>\<open>raise\<close>: \<^verbatim>\<open>if user_lat and user_lon\<close> tests the truth value of both
  coordinates. \<open>Inr\<close> is the location the program goes on with (connecting
  the vehicle, then cycling); \<open>Inl\<close> is the exception that leaves these lines
  and ends the program before any cycle.
\<close>

definition main_location ::
  "env \<Rightarrow> exn + real \<times> real \<Rightarrow> world \<Rightarrow> (exn + pyval \<times> pyval) \<times> world" where
  "main_location en ipinfo w =
     (case get_user_location ipinfo w of
        (Inl e, w1) \<Rightarrow> (Inl e, w1)
      | (Inr (user_lat, user_lon), w1) \<Rightarrow>
          if truthy user_lat \<and> truthy user_lon then
            (Inr (user_lat, user_lon),
             w1\<lparr>console := console w1 @
                   [''User'' @ apostrophe @ ''s location: Latitude ''
                      @ py_str (env_str en) user_lat @ '', Longitude ''
                      @ py_str (env_str en) user_lon]\<rparr>)
          else
            (Inl (Exn ''Exception''
                    (''Unable to determine user'' @ apostrophe @ ''s location.'')),
             w1))"

section \<open>Sample data\<close>

text \<open>
  A stand-in for the distance function on concrete inputs: it raises
  \<^verbatim>\<open>ValueError\<close> on a latitude outside \<open>[-90, 90]\<close> and measures the
  remaining points with the sum of the coordinate differences.
\<close>

definition sample_km :: distance_fn where
  "sample_km p q =
     (if \<bar>fst p\<bar> > 90 \<or> \<bar>fst q\<bar> > 90
      then Inl (Exn ''ValueError'' ''Latitude must be in the [-90; 90] range.'')
      else Inr (\<bar>fst p - fst q\<bar> + \<bar>snd p - snd q\<bar>))"

definition airport_far :: airport where
  "airport_far = \<lparr>name = ''Far Field'', iata_code = ''FAR'', location = (10, 10)\<rparr>"

definition airport_east :: airport where
  "airport_east = \<lparr>name = ''East Strip'', iata_code = ''EST'', location = (0, 2)\<rparr>"

definition airport_north :: airport where
  "airport_north = \<lparr>name = ''North Strip'', iata_code = ''NTH'', location = (2, 0)\<rparr>"

definition airport_near :: airport where
  "airport_near = \<lparr>name = ''Near Pad'', iata_code = ''NEA'', location = (1, 0)\<rparr>"

definition sample_airports :: "airport list" where
  "sample_airports = [airport_far, airport_east, airport_north, airport_near]"

text \<open>
  A second stand-in that differs from \<^const>\<open>sample_km\<close> only at points east of
  longitude 100, where no sample airport lies.
\<close>

definition sample_km_alt :: distance_fn where
  "sample_km_alt p q = (if snd q > 100 then Inr 0 else sample_km p q)"

text \<open>
  Stand-ins for Python's rendering of values; a vehicle whose battery cannot
  be read, one that answers, and one whose reading is interrupted from the
  keyboard; and the answers of the weather provider: a full one, one without a
  temperature, one with a boolean, one with the integer 25 and one with a
  401-digit integer as temperature, an empty JSON object with status 200, and
  a transport failure.
\<close>

definition sample_str :: "pyval \<Rightarrow> string" where
  "sample_str v =
     (case v of
        PNone \<Rightarrow> ''None''
      | PBool b \<Rightarrow> (if b then ''True'' else ''False'')
      | PInt i \<Rightarrow> (if i = 25 then ''25'' else if i = 80 then ''80'' else ''<int>'')
      | PFloat r \<Rightarrow>
          (if r = 68 then ''68.0'' else if r = 20 then ''20.0'' else if r = 3 then ''3.0''
           else if r = 169 / 5 then ''33.8'' else if r = 77 then ''77.0'' else ''<float>'')
      | _ \<Rightarrow> ''<'' @ type_name v @ ''>'')"

definition sample_format_2f :: "real \<Rightarrow> string" where
  "sample_format_2f d =
     (if d = 1 then ''1.00'' else if d = 2 then ''2.00'' else if d = 20 then ''20.00''
      else ''<km>'')"

definition sample_vehicle_down :: vehicle where
  "sample_vehicle_down =
     \<lparr>global_frame_lat = Inr (PFloat 1), global_frame_lon = Inr (PFloat 1),
      global_frame_alt = Inr (PFloat 30), groundspeed = Inr (PFloat 0),
      battery_level = Inl (Exn ''AttributeError'' ''battery unavailable''),
      mode_name = Inr (PStr ''LOITER'')\<rparr>"

definition sample_vehicle_ok :: vehicle where
  "sample_vehicle_ok =
     \<lparr>global_frame_lat = Inr (PFloat 1), global_frame_lon = Inr (PFloat 1),
      global_frame_alt = Inr (PFloat 30), groundspeed = Inr (PFloat 0),
      battery_level = Inr (PInt 80), mode_name = Inr (PStr ''LOITER'')\<rparr>"

definition sample_weather_body :: pyval where
  "sample_weather_body =
     PDict [(''current_weather'',
             PDict [(''temperature'', PFloat 20), (''windspeed'', PFloat 3)])]"

definition sample_env :: env where
  "sample_env =
     \<lparr>env_geodesic = sample_km, env_str = sample_str, env_format_2f = sample_format_2f,
      env_requests_get =
        (\<lambda>lat lon. Inr \<lparr>status_code = 200, json_body = Inr sample_weather_body\<rparr>),
      env_vehicle = sample_vehicle_down\<rparr>"

definition sample_env_empty_body :: env where
  "sample_env_empty_body =
     sample_env\<lparr>env_requests_get :=
       (\<lambda>lat lon. Inr \<lparr>status_code = 200, json_body = Inr (PDict [])\<rparr>)\<rparr>"

definition sample_env_offline :: env where
  "sample_env_offline =
     sample_env\<lparr>env_requests_get :=
                  (\<lambda>lat lon. Inl (Exn ''ConnectionError'' ''Max retries exceeded'')),
                env_vehicle := sample_vehicle_ok\<rparr>"






definition world0 :: world where
  "world0 =
     \<lparr>telemetry_label = [], weather_label = [], airport_label = [],
      after_calls = [], console = []\<rparr>"


text \<open>The one-airport dataset of the specification's end-to-end scenario.\<close>

definition test_airfield :: airport where
  "test_airfield = \<lparr>name = ''Test Airfield'', iata_code = ''TST'', location = (40, - 73)\<rparr>"

section \<open>The nearest-airport query: what it returns\<close>

lemma airport_distances_loop_ok:
  "\<forall>a\<in>set airports. geodesic_km user (location a) = Inr (km a) \<Longrightarrow>
   airport_distances_loop geodesic_km user airports acc =
     Inr (acc @ map (\<lambda>a. (a, km a)) airports)"
  by (induction airports arbitrary: acc) simp_all

lemma airport_distances_loop_fails_iff:
  "(\<exists>e. airport_distances_loop geodesic_km user airports acc = Inl e) \<longleftrightarrow>
   (\<exists>a\<in>set airports. \<exists>e. geodesic_km user (location a) = Inl e)"
proof (induction airports arbitrary: acc)
  case Nil
  show ?case by simp
next
  case (Cons a rest)
  show ?case
  proof (cases "geodesic_km user (location a)")
    case (Inl e)
    then show ?thesis by auto
  next
    case (Inr d)
    then show ?thesis using Cons.IH [of "acc @ [(a, d)]"] by auto
  qed
qed

lemma prefix_slice_to: "prefix (slice_to xs k) xs"
  by (simp add: slice_to_def take_is_prefix)

lemma find_nearest_airports_ok:
  assumes "\<forall>a\<in>set airports. geodesic_km (user_lat, user_lon) (location a) = Inr (km a)"
  shows "find_nearest_airports geodesic_km user_lat user_lon airports k =
           Inr (slice_to (sort_key snd (map (\<lambda>a. (a, km a)) airports)) k)"
proof -
  have "airport_distances_loop geodesic_km (user_lat, user_lon) airports []
          = Inr (map (\<lambda>a. (a, km a)) airports)"
    using assms
      airport_distances_loop_ok [where km = km and acc = "[]" and airports = airports]
    by simp
  then show ?thesis
    by (simp add: find_nearest_airports_def)
qed


lemma sample_loop:
  "airport_distances_loop sample_km (0, 0) sample_airports [] =
     Inr [(airport_far, 20), (airport_east, 2), (airport_north, 2), (airport_near, 1)]"
  by (simp add: sample_airports_def sample_km_def airport_far_def airport_east_def
        airport_north_def airport_near_def)

lemma sample_query:
  "find_nearest_airports sample_km 0 0 sample_airports k =
     Inr (slice_to
            [(airport_near, 1), (airport_east, 2), (airport_north, 2), (airport_far, 20)] k)"
  by (simp add: find_nearest_airports_def sample_loop)

lemma sample_distances:
  "\<forall>a\<in>set sample_airports.
      sample_km (0, 0) (location a) = Inr (\<bar>fst (location a)\<bar> + \<bar>snd (location a)\<bar>)"
  by (simp add: sample_airports_def sample_km_def airport_far_def airport_east_def
        airport_north_def airport_near_def)

lemma sample_sorted:
  "sort_key snd (map (\<lambda>a. (a, \<bar>fst (location a)\<bar> + \<bar>snd (location a)\<bar>)) sample_airports)
     = [(airport_near, 1), (airport_east, 2), (airport_north, 2), (airport_far, 20)]"
  by (simp add: sample_airports_def airport_far_def airport_east_def
        airport_north_def airport_near_def)

lemma sample_far_fails:
  "airport_far \<in> set sample_airports
   \<and> sample_km (100, 0) (location airport_far)
       = Inl (Exn ''ValueError'' ''Latitude must be in the [-90; 90] range.'')"
  by (simp add: sample_airports_def sample_km_def)




lemma airport_distances_loop_cong:
  "\<forall>a\<in>set airports. geodesic_km' user (location a) = geodesic_km user (location a) \<Longrightarrow>
   airport_distances_loop geodesic_km' user airports acc =
     airport_distances_loop geodesic_km user airports acc"
  by (induction airports arbitrary: acc) (simp_all split: sum.splits)

lemma airport_distances_loop_Inr:
  assumes "airport_distances_loop geodesic_km user airports acc = Inr ds"
  shows "\<forall>a\<in>set airports. \<exists>d. geodesic_km user (location a) = Inr d"
proof (rule ccontr)
  assume "\<not> (\<forall>a\<in>set airports. \<exists>d. geodesic_km user (location a) = Inr d)"
  then obtain a where a: "a \<in> set airports" "\<forall>d. geodesic_km user (location a) \<noteq> Inr d"
    by blast
  then obtain e where "geodesic_km user (location a) = Inl e"
    by (cases "geodesic_km user (location a)") auto
  with a(1) have "\<exists>e. airport_distances_loop geodesic_km user airports acc = Inl e"
    using airport_distances_loop_fails_iff [of geodesic_km user airports acc] by blast
  with assms show False by simp
qed

lemma find_nearest_airports_Inr:
  assumes "find_nearest_airports geodesic_km user_lat user_lon airports k = Inr r"
  obtains km where
    "\<forall>a\<in>set airports. geodesic_km (user_lat, user_lon) (location a) = Inr (km a)"
    "r = slice_to (sort_key snd (map (\<lambda>a. (a, km a)) airports)) k"
proof -
  from assms obtain ds
    where ds: "airport_distances_loop geodesic_km (user_lat, user_lon) airports [] = Inr ds"
      and r: "r = slice_to (sort_key snd ds) k"
    by (auto simp: find_nearest_airports_def split: sum.splits)
  from airport_distances_loop_Inr [OF ds] obtain km
    where km: "\<forall>a\<in>set airports. geodesic_km (user_lat, user_lon) (location a) = Inr (km a)"
    by metis
  have "ds = map (\<lambda>a. (a, km a)) airports"
    using ds km airport_distances_loop_ok [where km = km and acc = "[]" and airports = airports]
    by simp
  with r km that show thesis by blast
qed

section \<open>The nearest-airport query: determinism and tie order\<close>

text \<open>
  C5. The nearest-airport query is deterministic and stable. Its result is a
  function of the origin, \<open>k\<close>, the dataset and the distances of the dataset's
  airports alone: a second run in which every airport of the dataset has the
  same distance returns the identical sequence. And the entries of the result
  at any one distance \<open>d\<close> are, in this order, an initial part of the dataset's
  airports at distance \<open>d\<close> in dataset order: ties keep their input order.
\<close>

theorem find_nearest_airports_deterministic_stable:
  assumes "find_nearest_airports geodesic_km user_lat user_lon airports k = Inr r"
  shows "prefix (filter (\<lambda>entry. snd entry = d) r)
           (map (\<lambda>a. (a, d))
              (filter (\<lambda>a. geodesic_km (user_lat, user_lon) (location a) = Inr d) airports))
       \<and> ((\<forall>a\<in>set airports. geodesic_km' (user_lat, user_lon) (location a)
                                 = geodesic_km (user_lat, user_lon) (location a))
            \<longrightarrow> find_nearest_airports geodesic_km' user_lat user_lon airports k = Inr r)"
proof
  from assms obtain km where
    km: "\<forall>a\<in>set airports. geodesic_km (user_lat, user_lon) (location a) = Inr (km a)"
    and r: "r = slice_to (sort_key snd (map (\<lambda>a. (a, km a)) airports)) k"
    by (rule find_nearest_airports_Inr)
  let ?ds = "map (\<lambda>a. (a, km a)) airports"
  have "prefix r (sort_key snd ?ds)"
    unfolding r by (rule prefix_slice_to)
  then have "prefix (filter (\<lambda>entry. snd entry = d) r)
               (filter (\<lambda>entry. snd entry = d) (sort_key snd ?ds))"
    by (rule filter_mono_prefix)
  also have "filter (\<lambda>entry. snd entry = d) (sort_key snd ?ds)
               = filter (\<lambda>entry. snd entry = d) ?ds"
    by (rule sort_key_stable)
  also have "\<dots> = map (\<lambda>a. (a, km a)) (filter (\<lambda>a. km a = d) airports)"
    by (simp add: filter_map comp_def)
  also have "\<dots> = map (\<lambda>a. (a, d)) (filter (\<lambda>a. km a = d) airports)"
    by (rule map_cong) auto
  also have "filter (\<lambda>a. km a = d) airports
               = filter (\<lambda>a. geodesic_km (user_lat, user_lon) (location a) = Inr d) airports"
    using km by (intro filter_cong) auto
  finally show "prefix (filter (\<lambda>entry. snd entry = d) r)
           (map (\<lambda>a. (a, d))
              (filter (\<lambda>a. geodesic_km (user_lat, user_lon) (location a) = Inr d) airports))" .
next
  show "(\<forall>a\<in>set airports. geodesic_km' (user_lat, user_lon) (location a)
                                 = geodesic_km (user_lat, user_lon) (location a))
            \<longrightarrow> find_nearest_airports geodesic_km' user_lat user_lon airports k = Inr r"
  proof
    assume "\<forall>a\<in>set airports. geodesic_km' (user_lat, user_lon) (location a)
                                 = geodesic_km (user_lat, user_lon) (location a)"
    then have "airport_distances_loop geodesic_km' (user_lat, user_lon) airports []
                 = airport_distances_loop geodesic_km (user_lat, user_lon) airports []"
      by (rule airport_distances_loop_cong)
    with assms show "find_nearest_airports geodesic_km' user_lat user_lon airports k = Inr r"
      by (simp add: find_nearest_airports_def)
  qed
qed

lemma sample_alt_agrees:
  "\<forall>a\<in>set sample_airports. sample_km_alt (0, 0) (location a) = sample_km (0, 0) (location a)"
  by (simp add: sample_airports_def sample_km_alt_def airport_far_def airport_east_def
        airport_north_def airport_near_def)

lemma sample_query_3:
  "find_nearest_airports sample_km 0 0 sample_airports 3
     = Inr [(airport_near, 1), (airport_east, 2), (airport_north, 2)]"
  by (simp add: sample_query slice_to_def)

theorem find_nearest_airports_deterministic_stable_witness:
  "find_nearest_airports sample_km 0 0 sample_airports 3
     = Inr [(airport_near, 1), (airport_east, 2), (airport_north, 2)]
   \<and> prefix [(airport_east, 2::real), (airport_north, 2)]
        (map (\<lambda>a. (a, 2)) (filter (\<lambda>a. sample_km (0, 0) (location a) = Inr 2) sample_airports))
   \<and> find_nearest_airports sample_km_alt 0 0 sample_airports 3
     = Inr [(airport_near, 1), (airport_east, 2), (airport_north, 2)]"
  using find_nearest_airports_deterministic_stable
          [OF sample_query_3, where d = 2 and geodesic_km' = sample_km_alt]
        sample_alt_agrees sample_query_3
  by simp

section \<open>The nearest-airport query: failure\<close>

lemma find_nearest_airports_Inl_iff:
  "find_nearest_airports geodesic_km user_lat user_lon airports k = Inl e \<longleftrightarrow>
   airport_distances_loop geodesic_km (user_lat, user_lon) airports [] = Inl e"
  by (simp add: find_nearest_airports_def split: sum.splits)

lemma airport_distances_loop_Inl:
  "airport_distances_loop geodesic_km user airports acc = Inl e \<Longrightarrow>
   \<exists>a\<in>set airports. geodesic_km user (location a) = Inl e"
  by (induction airports arbitrary: acc) (auto split: sum.splits)

text \<open>
  C4 as stated fails on the code, which checks neither the origin nor \<open>k\<close>
  and returns a result where the claim demands a failure: with \<open>k = 0\<close> it
  returns the empty list, with \<open>k = -1\<close> all but the farthest entry, and on an
  empty dataset it returns the empty list for an origin of latitude 100 and
  longitude 200.
\<close>

theorem find_nearest_airports_no_validation_counterexample:
  "find_nearest_airports sample_km 0 0 sample_airports 0 = Inr []
   \<and> find_nearest_airports sample_km 0 0 sample_airports (- 1)
       = Inr [(airport_near, 1), (airport_east, 2), (airport_north, 2)]
   \<and> find_nearest_airports sample_km 100 200 [] 5 = Inr []"
proof -
  have "find_nearest_airports sample_km 100 200 [] 5 = Inr []"
    by (simp add: find_nearest_airports_def slice_to_def)
  then show ?thesis
    by (simp add: sample_query slice_to_def)
qed

text \<open>
  C4, as amended. The nearest-airport query validates neither the origin nor
  \<open>k\<close>. It raises exactly when the distance computation raises for some airport
  of the dataset, and then with an exception that the distance computation
  raised for an airport of the dataset. When every distance \<open>km a\<close> can be
  computed it returns a result for every origin and every \<open>k\<close>, taken from
  the list of pairs (airport, its distance) sorted stably by distance: its
  first \<open>k\<close> entries when \<open>k \<ge> 0\<close> (none for \<open>k = 0\<close>), and for \<open>k < 0\<close> that
  list without its last \<open>-k\<close> entries.
\<close>

theorem find_nearest_airports_fails_with_distance_only:
  "((\<exists>e. find_nearest_airports geodesic_km user_lat user_lon airports k = Inl e) \<longleftrightarrow>
      (\<exists>a\<in>set airports. \<exists>e. geodesic_km (user_lat, user_lon) (location a) = Inl e))
   \<and> (find_nearest_airports geodesic_km user_lat user_lon airports k = Inl e \<longrightarrow>
        (\<exists>a\<in>set airports. geodesic_km (user_lat, user_lon) (location a) = Inl e))
   \<and> ((\<forall>a\<in>set airports. geodesic_km (user_lat, user_lon) (location a) = Inr (km a)) \<longrightarrow>
        find_nearest_airports geodesic_km user_lat user_lon airports k =
          Inr (if 0 \<le> k
               then take (nat k) (sort_key snd (map (\<lambda>a. (a, km a)) airports))
               else take (length airports - nat (- k))
                      (sort_key snd (map (\<lambda>a. (a, km a)) airports))))"
proof (intro conjI impI)
  show "(\<exists>e. find_nearest_airports geodesic_km user_lat user_lon airports k = Inl e) \<longleftrightarrow>
      (\<exists>a\<in>set airports. \<exists>e. geodesic_km (user_lat, user_lon) (location a) = Inl e)"
    by (simp only: find_nearest_airports_Inl_iff airport_distances_loop_fails_iff)
next
  assume "find_nearest_airports geodesic_km user_lat user_lon airports k = Inl e"
  then show "\<exists>a\<in>set airports. geodesic_km (user_lat, user_lon) (location a) = Inl e"
    by (simp only: find_nearest_airports_Inl_iff) (rule airport_distances_loop_Inl)
next
  assume km: "\<forall>a\<in>set airports. geodesic_km (user_lat, user_lon) (location a) = Inr (km a)"
  have "nat (int (length airports) + k) = length airports - nat (- k)" if "k < 0"
    using that by linarith
  then show "find_nearest_airports geodesic_km user_lat user_lon airports k =
          Inr (if 0 \<le> k
               then take (nat k) (sort_key snd (map (\<lambda>a. (a, km a)) airports))
               else take (length airports - nat (- k))
                      (sort_key snd (map (\<lambda>a. (a, km a)) airports)))"
    by (simp add: find_nearest_airports_ok
            [where km = km and geodesic_km = geodesic_km and user_lat = user_lat
               and user_lon = user_lon and airports = airports, OF km] slice_to_def)
qed

theorem find_nearest_airports_fails_with_distance_only_witness:
  "(\<exists>e. find_nearest_airports sample_km 100 0 sample_airports 5 = Inl e)
   \<and> find_nearest_airports sample_km 0 0 sample_airports (- 1)
       = Inr [(airport_near, 1), (airport_east, 2), (airport_north, 2)]
   \<and> find_nearest_airports sample_km 0 0 sample_airports 0 = Inr []"
proof -
  have "\<exists>a\<in>set sample_airports. \<exists>e. sample_km (100, 0) (location a) = Inl e"
    using sample_far_fails by blast
  then have a: "\<exists>e. find_nearest_airports sample_km 100 0 sample_airports 5 = Inl e"
    using find_nearest_airports_fails_with_distance_only
            [where geodesic_km = sample_km and user_lat = 100 and user_lon = 0
               and airports = sample_airports and k = 5]
    by blast
  have len: "length sample_airports = 4"
    by (simp add: sample_airports_def)
  have b: "find_nearest_airports sample_km 0 0 sample_airports (- 1)
             = Inr [(airport_near, 1), (airport_east, 2), (airport_north, 2)]"
    using sample_distances
          find_nearest_airports_fails_with_distance_only
            [where geodesic_km = sample_km and user_lat = 0 and user_lon = 0
               and airports = sample_airports and k = "- 1"
               and km = "\<lambda>a. \<bar>fst (location a)\<bar> + \<bar>snd (location a)\<bar>"]
    unfolding sample_sorted len by simp
  have c: "find_nearest_airports sample_km 0 0 sample_airports 0 = Inr []"
    using sample_distances
          find_nearest_airports_fails_with_distance_only
            [where geodesic_km = sample_km and user_lat = 0 and user_lon = 0
               and airports = sample_airports and k = 0
               and km = "\<lambda>a. \<bar>fst (location a)\<bar> + \<bar>snd (location a)\<bar>"]
    by simp
  from a b c show ?thesis by blast
qed

section \<open>The HUD's update functions, case by case\<close>



lemma update_telemetry_keeps:
  "weather_label (snd (update_telemetry en w)) = weather_label w"
  "airport_label (snd (update_telemetry en w)) = airport_label w"
  "after_calls (snd (update_telemetry en w)) = after_calls w"
  "console (snd (update_telemetry en w)) = console w"
  by (simp_all add: update_telemetry_def split: sum.splits)





lemma foldl_append_concat:
  "foldl (\<lambda>text x. text @ f x) start xs = start @ concat (map f xs)"
  by (induction xs arbitrary: start) simp_all

lemma update_airports_ok:
  assumes "find_nearest_airports (env_geodesic en) user_lat user_lon airports 5 = Inr nearest"
  shows "update_airports en user_lat user_lon airports w =
     (Inr (),
      w\<lparr>airport_label :=
           ''Nearest Airports:'' @ [CHR 0x0A]
           @ concat (map (\<lambda>entry. name (fst entry) @ '' ('' @ iata_code (fst entry)
                                    @ '') - '' @ env_format_2f en (snd entry) @ '' km''
                                    @ [CHR 0x0A]) nearest)\<rparr>)"
proof -
  have "airports_text (env_format_2f en) nearest =
          ''Nearest Airports:'' @ [CHR 0x0A]
           @ concat (map (\<lambda>entry. name (fst entry) @ '' ('' @ iata_code (fst entry)
                                    @ '') - '' @ env_format_2f en (snd entry) @ '' km''
                                    @ [CHR 0x0A]) nearest)"
    unfolding airports_text_def airport_line_def newline_def
    by (simp only: foldl_append_concat append_assoc)
  then show ?thesis
    by (simp add: update_airports_def assms)
qed

section \<open>One refresh cycle: a failing telemetry poll\<close>





section \<open>One refresh cycle: a failing weather fetch\<close>

lemma update_weather_raises:
  "env_requests_get en lat lon = Inl e \<Longrightarrow> update_weather en lat lon w = (Inl e, w)"
  by (simp add: update_weather_def get_weather_data_def)

lemma update_weather_json_raises:
  "env_requests_get en lat lon = Inr resp \<Longrightarrow> status_code resp = 200 \<Longrightarrow>
   json_body resp = Inl e \<Longrightarrow> update_weather en lat lon w = (Inl e, w)"
  by (simp add: update_weather_def get_weather_data_def)

lemma update_weather_status_failure:
  "env_requests_get en lat lon = Inr resp \<Longrightarrow> status_code resp \<noteq> 200 \<Longrightarrow>
   update_weather en lat lon w =
     (Inr (),
      w\<lparr>console := console w @
            [''Failed to retrieve weather data: ''
               @ py_str (env_str en) (PInt (status_code resp))],
        weather_label := ''Failed to retrieve weather data.''\<rparr>)"
  by (simp add: update_weather_def get_weather_data_def)

lemma update_aborted_by_weather:
  "env_requests_get en user_lat user_lon = Inl e \<Longrightarrow>
   update_telemetry en w = (Inr (), w1) \<Longrightarrow>
   update en user_lat user_lon airports w = (Inl e, w1)"
  by (simp add: update_def update_weather_raises)

lemma update_survives_weather_status:
  assumes "update_telemetry en w = (Inr (), w1)"
    and "env_requests_get en user_lat user_lon = Inr resp" and "status_code resp \<noteq> 200"
    and "find_nearest_airports (env_geodesic en) user_lat user_lon airports 5 = Inr nearest"
  shows "\<exists>w'. update en user_lat user_lon airports w = (Inr (), w')
           \<and> weather_label w' = ''Failed to retrieve weather data.''
           \<and> after_calls w' = after_calls w @ [5000]"
proof -
  have "after_calls w1 = after_calls w"
    using update_telemetry_keeps(3) [of en w] assms(1) by simp
  then show ?thesis
    by (simp add: update_def assms(1) update_weather_status_failure [OF assms(2,3)]
          update_airports_ok [OF assms(4)])
qed

text \<open>
  C3. A cycle in which the telemetry is read and \<^verbatim>\<open>requests.get\<close> for the
  weather raises a transport-level exception: the exception leaves
  \<^verbatim>\<open>update\<close>; the weather label records nothing and the airport label is not
  written (both keep their old, empty text), and no next cycle is scheduled.
\<close>

theorem update_aborted_by_weather_exception:
  "update sample_env_offline 0 0 sample_airports world0 =
     (Inl (Exn ''ConnectionError'' ''Max retries exceeded''),
      \<lparr>telemetry_label =
         telemetry_text sample_str
           \<lparr>latitude = PFloat 1, longitude = PFloat 1, altitude = PFloat 30,
            ground_speed = PFloat 0, battery = PInt 80, mode = PStr ''LOITER''\<rparr>,
       weather_label = [], airport_label = [], after_calls = [], console = []\<rparr>)"
proof -
  have req: "env_requests_get sample_env_offline 0 0
          = Inl (Exn ''ConnectionError'' ''Max retries exceeded'')"
    by (simp add: sample_env_offline_def)
  have tele: "update_telemetry sample_env_offline world0 =
      (Inr (),
       world0\<lparr>telemetry_label :=
         telemetry_text sample_str
           \<lparr>latitude = PFloat 1, longitude = PFloat 1, altitude = PFloat 30,
            ground_speed = PFloat 0, battery = PInt 80, mode = PStr ''LOITER''\<rparr>\<rparr>)"
    by (simp add: update_telemetry_def get_telemetry_data_def sample_env_offline_def
          sample_env_def sample_vehicle_ok_def)
  show ?thesis
    using update_aborted_by_weather [OF req tele, of sample_airports]
    by (simp add: world0_def)
qed

section \<open>The weather text\<close>

text \<open>
  C8. A status-200 response whose body is the empty JSON object: every field is
  missing, and the weather label is the failure text of the whole call.
\<close>

theorem update_weather_empty_body_reported_failed:
  "update_weather sample_env_empty_body 0 0 world0 =
     (Inr (), world0\<lparr>weather_label := ''Failed to retrieve weather data.''\<rparr>)"
  by (simp add: update_weather_def get_weather_data_def sample_env_empty_body_def)









section \<open>Start-up\<close>

lemma main_location_provider_failure:
  "is_Exception e \<Longrightarrow>
   main_location en (Inl e) w =
     (Inl (Exn ''Exception'' (''Unable to determine user'' @ apostrophe @ ''s location.'')),
      w\<lparr>console := console w @ [''Failed to retrieve location: '' @ exn_msg e]\<rparr>)"
  by (simp add: main_location_def get_user_location_def)

lemma main_location_nonzero:
  "la \<noteq> 0 \<Longrightarrow> lo \<noteq> 0 \<Longrightarrow>
   fst (main_location en (Inr (la, lo)) w) = Inr (PFloat la, PFloat lo)"
  by (simp add: main_location_def get_user_location_def)

lemma main_location_starts_iff:
  "(\<exists>loc. fst (main_location en ipinfo w) = Inr loc) \<longleftrightarrow>
   (\<exists>la lo. ipinfo = Inr (la, lo) \<and> la \<noteq> 0 \<and> lo \<noteq> 0)"
  by (cases ipinfo) (auto simp: main_location_def get_user_location_def)

text \<open>
  C7. The location provider returns the coordinate pair (0.0, 10.0), a point
  on the equator: the main block raises
  \<^verbatim>\<open>Exception("Unable to determine user's location.")\<close> and never cycles.
\<close>

theorem main_location_rejects_zero_latitude:
  "main_location sample_env (Inr (0, 10)) world0 =
     (Inl (Exn ''Exception'' (''Unable to determine user'' @ apostrophe @ ''s location.'')),
      world0)"
  by (simp add: main_location_def get_user_location_def)

section \<open>The one-airport scenario\<close>

text \<open>
  On the dataset of the single airport TST at (40.0, -73.0), the query from
  (40.0, -73.1) with \<open>k = 5\<close> returns exactly one entry: TST, with the
  distance that the distance function gives for the two points. The value of
  that distance is the library's floating-point result and lies outside this
  model.
\<close>

lemma find_nearest_airports_test_airfield:
  "geodesic_km (40, - 731 / 10) (40, - 73) = Inr d \<Longrightarrow>
   find_nearest_airports geodesic_km 40 (- 731 / 10) [test_airfield] 5
     = Inr [(test_airfield, d)]"
  by (simp add: find_nearest_airports_def test_airfield_def slice_to_def)

end
